theory Spec2Isabelle
  imports Complex_Main "HOL-Library.Sublist"
begin

section \<open>Strings\<close>

text \<open>
  A JavaScript string is a sequence of UTF-16 code units. The model uses \<^typ>\<open>string\<close>
  and reads every \<^typ>\<open>char\<close> as one code unit in the range U+0000 .. U+00FF
  (ASCII and Latin-1), so \<open>length\<close> counts what JavaScript's \<open>length\<close> counts.
\<close>

definition isSpace :: "char \<Rightarrow> bool" where
  \<comment> \<open>the regular expression class \<open>\s\<close> and the characters \<open>trim()\<close> strips:
      TAB, LF, VT, FF, CR, SPACE and NBSP (the members below U+0100)\<close>
  "isSpace c = (c \<in> set [CHR 0x09, CHR 0x0A, CHR 0x0B, CHR 0x0C, CHR 0x0D, CHR 0x20, CHR 0xA0])"

definition isDigit :: "char \<Rightarrow> bool" where
  \<comment> \<open>the regular expression class \<open>\d\<close>\<close>
  "isDigit c = (c \<in> set ''0123456789'')"

definition canonicalize :: "char \<Rightarrow> char" where
  \<comment> \<open>case folding of the \<open>i\<close> flag. The keywords matched below consist of ASCII
      letters, and without the \<open>u\<close> flag only an ASCII letter folds to an ASCII letter,
      so folding \<open>a..z\<close> to \<open>A..Z\<close> decides every comparison against them.\<close>
  "canonicalize c =
     (case map_of (zip ''abcdefghijklmnopqrstuvwxyz'' ''ABCDEFGHIJKLMNOPQRSTUVWXYZ'') c of
        Some u \<Rightarrow> u
      | None \<Rightarrow> c)"

fun ciPrefix :: "string \<Rightarrow> string \<Rightarrow> bool" where
  \<comment> \<open>the keyword \<open>kw\<close> matches at the start of the text, ignoring case\<close>
  "ciPrefix [] s = True"
| "ciPrefix (k # ks) [] = False"
| "ciPrefix (k # ks) (c # cs) = (canonicalize c = canonicalize k \<and> ciPrefix ks cs)"

definition trim :: "string \<Rightarrow> string" where
  "trim s = rev (dropWhile isSpace (rev (dropWhile isSpace s)))"

fun indexOf :: "string \<Rightarrow> string \<Rightarrow> nat option" where
  \<comment> \<open>\<open>s.indexOf(pat)\<close>; \<open>None\<close> stands for \<open>-1\<close>\<close>
  "indexOf pat [] = (if pat = [] then Some 0 else None)"
| "indexOf pat (c # cs) =
     (if prefix pat (c # cs) then Some 0 else map_option Suc (indexOf pat cs))"

definition includesStr :: "string \<Rightarrow> string \<Rightarrow> bool" where
  \<comment> \<open>\<open>s.includes(pat)\<close>\<close>
  "includesStr s pat = (indexOf pat s \<noteq> None)"

section \<open>The response sanitizer (cleanSparqlResponse)\<close>

definition dropNewline :: "string \<Rightarrow> string" where
  \<comment> \<open>the optional \<open>\n?\<close> at the end of both fence patterns\<close>
  "dropNewline s = (case s of [] \<Rightarrow> [] | c # cs \<Rightarrow> if c = CHR 0x0A then cs else c # cs)"

function removeFence :: "string \<Rightarrow> string \<Rightarrow> string" where
  \<comment> \<open>\<open>s.replace(/lit\n?/g, '')\<close> for a literal \<open>lit\<close>: matches are taken from left
      to right on the original text and do not overlap\<close>
  "removeFence lit [] = []"
| "removeFence lit (c # cs) =
     (if prefix lit (c # cs) then removeFence lit (dropNewline (drop (length lit - 1) cs))
      else c # removeFence lit cs)"
  by pat_completeness auto
termination
proof (relation "measure (\<lambda>(lit, s). length s)")
  show "wf (measure (\<lambda>(lit, s). length s))" by simp
next
  fix lit :: string and c :: char and cs :: string
  have "length (dropNewline xs) \<le> length xs" for xs
    by (cases xs) (simp_all add: dropNewline_def)
  from this [of "drop (length lit - 1) cs"] show "((lit, dropNewline (drop (length lit - 1) cs)), (lit, c # cs))
      \<in> measure (\<lambda>(lit, s). length s)"
    by simp
next
  fix lit :: string and c :: char and cs :: string
  show "((lit, cs), (lit, c # cs)) \<in> measure (\<lambda>(lit, s). length s)" by simp
qed

definition limitAt :: "string \<Rightarrow> nat option" where
  \<comment> \<open>\<open>LIMIT\s+\d+\<close> with the \<open>i\<close> flag, matched at the start of the text: the length
      of the match. Both \<open>\s+\<close> and \<open>\d+\<close> are greedy and nothing follows them, so
      the match takes the whole run of white space and the whole run of digits.\<close>
  "limitAt s =
     (if ciPrefix ''LIMIT'' s then
        (let r = drop 5 s;
             ws = takeWhile isSpace r;
             ds = takeWhile isDigit (dropWhile isSpace r)
         in if ws \<noteq> [] \<and> ds \<noteq> [] then Some (5 + length ws + length ds) else None)
      else None)"

fun findLimit :: "string \<Rightarrow> nat option" where
  \<comment> \<open>\<open>[\s\S]*?LIMIT\s+\d+\<close> matched at the start of the text: the lazy star stops at
      the first position where the limit clause matches; the result is the length of the
      whole match\<close>
  "findLimit [] = None"
| "findLimit (c # cs) =
     (case limitAt (c # cs) of
        Some n \<Rightarrow> Some n
      | None \<Rightarrow> map_option Suc (findLimit cs))"

fun matchKeywordToLimit :: "string \<Rightarrow> string \<Rightarrow> string option" where
  \<comment> \<open>\<open>s.match(/(KW[\s\S]*?LIMIT\s+\d+)/i)\<close>: the leftmost start position at which the
      whole pattern matches; the result is capture group 1\<close>
  "matchKeywordToLimit kw [] = None"
| "matchKeywordToLimit kw (c # cs) =
     (if ciPrefix kw (c # cs) then
        (case findLimit (drop (length kw) (c # cs)) of
           Some n \<Rightarrow> Some (take (length kw + n) (c # cs))
         | None \<Rightarrow> matchKeywordToLimit kw cs)
      else matchKeywordToLimit kw cs)"

fun closeBeforeLimit :: "string \<Rightarrow> string" where
  \<comment> \<open>\<open>s.replace(/(\s*)(LIMIT\s+\d+)/i, '\n}$1$2')\<close>: no \<open>g\<close> flag, so only the
      leftmost match is replaced; a text without a match is returned unchanged\<close>
  "closeBeforeLimit [] = []"
| "closeBeforeLimit (c # cs) =
     (if limitAt (dropWhile isSpace (c # cs)) \<noteq> None then CHR 0x0A # CHR ''}'' # c # cs
      else c # closeBeforeLimit cs)"

definition requiredPrefixes :: string where
  "requiredPrefixes =
     ''PREFIX dcat: <http://www.w3.org/ns/dcat#>'' @ [CHR 0x0A] @
     ''PREFIX dct: <http://purl.org/dc/terms/>'' @ [CHR 0x0A] @
     ''PREFIX foaf: <http://xmlns.com/foaf/0.1/>'' @ [CHR 0x0A, CHR 0x0A]"

definition countChar :: "char \<Rightarrow> string \<Rightarrow> nat" where
  \<comment> \<open>\<open>(s.match(/c/g) || []).length\<close>\<close>
  "countChar c s = length (filter (\<lambda>x. x = c) s)"

definition extractQuery :: "string \<Rightarrow> string" where
  \<comment> \<open>lines 13 to 40: trim, drop the fences, cut out the query\<close>
  "extractQuery response =
     (let s1 = trim response;
          s2 = removeFence ''```'' (removeFence ''```sparql'' s1);
          s3 = (case matchKeywordToLimit ''PREFIX'' s2 of
                  Some m \<Rightarrow> trim m
                | None \<Rightarrow>
                    (case matchKeywordToLimit ''SELECT'' s2 of
                       Some m \<Rightarrow> trim m
                     | None \<Rightarrow> s2));
          s4 = (case indexOf ''PREFIX'' s3 of
                  Some firstPrefix \<Rightarrow> if firstPrefix > 0 then drop firstPrefix s3 else s3
                | None \<Rightarrow> s3)
      in (case findLimit s4 of Some n \<Rightarrow> take n s4 | None \<Rightarrow> s4))"

definition addPrefixes :: "string \<Rightarrow> string" where
  \<comment> \<open>lines 43 to 50\<close>
  "addPrefixes sparql =
     (if \<not> includesStr sparql ''PREFIX'' then requiredPrefixes @ sparql else sparql)"

definition repairBraces :: "string \<Rightarrow> string" where
  \<comment> \<open>lines 53 to 58\<close>
  "repairBraces sparql =
     (let openBraces = countChar (CHR ''{'') sparql;
          closeBraces' = countChar (CHR ''}'') sparql
      in if openBraces > closeBraces' then closeBeforeLimit sparql else sparql)"

definition cleanSparqlResponse :: "string \<Rightarrow> string" where
  "cleanSparqlResponse response = repairBraces (addPrefixes (extractQuery response))"

section \<open>The keyword fallback retriever (getRelevantExamples)\<close>

record Example =
  query :: string
  sparql :: string

definition toLowerChar :: "char \<Rightarrow> char" where
  \<comment> \<open>\<open>toLowerCase\<close> on one code unit below U+0100: \<open>A..Z\<close> and the Latin-1
      capitals U+00C0 .. U+00DE (the multiplication sign U+00D7 apart) move up by 32\<close>
  "toLowerChar c =
     (let n = (of_char c :: nat)
      in if (65 \<le> n \<and> n \<le> 90) \<or> (192 \<le> n \<and> n \<le> 222 \<and> n \<noteq> 215)
         then char_of (n + 32) else c)"

definition toLowerCase :: "string \<Rightarrow> string" where
  "toLowerCase s = map toLowerChar s"

definition keywordRules :: "(string list \<times> nat list) list" where
  \<comment> \<open>the table \<open>keywords\<close> of lines 444 to 453, as pairs \<open>(terms, examples)\<close>; U+00F1 is n with tilde\<close>
  "keywordRules =
     [([''todos'', ''listar'', ''dame''], [0]),
      ([''csv'', ''formato'', ''json'', ''xml''], [1, 6]),
      ([''salud'', ''sanidad'', ''sanitario''], [2, 5]),
      ([''cuantos'', ''total'', ''count'', ''contar''], [3]),
      ([''fecha'', [CHR ''a'', CHR 0xF1, CHR ''o''], ''2023'', ''2024'', ''publicado'',
        ''reciente''], [4, 8]),
      ([''ministerio'', ''gobierno'', ''organismo'', ''publicador''], [5]),
      ([''categoria'', ''tema'', ''medio ambiente''], [7]),
      ([''licencia'', ''creative commons''], [9])]"

definition setAdd :: "nat \<Rightarrow> nat list \<Rightarrow> nat list" where
  \<comment> \<open>\<open>Set.prototype.add\<close>: a JavaScript Set keeps insertion order, so it is a list
      without duplicates\<close>
  "setAdd idx selectedIndices =
     (if idx \<in> set selectedIndices then selectedIndices else selectedIndices @ [idx])"

definition addExamples :: "nat \<Rightarrow> nat list \<Rightarrow> nat list \<Rightarrow> nat list" where
  \<comment> \<open>lines 460 to 464: \<open>examples.forEach(idx => if (idx < allExamples.length) ...)\<close>\<close>
  "addExamples n examples selectedIndices =
     foldl (\<lambda>acc idx. if idx < n then setAdd idx acc else acc) selectedIndices examples"

definition scanKeywords :: "nat \<Rightarrow> string \<Rightarrow> nat list" where
  \<comment> \<open>lines 455 to 466: the loop over the table, \<open>n\<close> is \<open>allExamples.length\<close>\<close>
  "scanKeywords n queryLower =
     foldl (\<lambda>acc (terms, examples).
              if list_ex (\<lambda>term. includesStr queryLower term) terms
              then addExamples n examples acc else acc)
       [] keywordRules"

definition slice0 :: "int \<Rightarrow> 'a list \<Rightarrow> 'a list" where
  \<comment> \<open>\<open>xs.slice(0, k)\<close> for an integer \<open>k\<close>: a negative end counts from the end\<close>
  "slice0 k xs = (if k < 0 then take (nat (int (length xs) + k)) xs else take (nat k) xs)"

definition elementAt :: "'a list \<Rightarrow> nat \<Rightarrow> 'a option" where
  \<comment> \<open>\<open>xs[idx]\<close>: \<open>None\<close> stands for \<open>undefined\<close>, the value of a read out of range\<close>
  "elementAt xs idx = (if idx < length xs then Some (xs ! idx) else None)"

definition getRelevantExamples :: "Example list \<Rightarrow> string \<Rightarrow> int \<Rightarrow> Example option list" where
  \<comment> \<open>\<open>allExamples\<close> is what \<open>loadExamples()\<close> returned\<close>
  "getRelevantExamples allExamples qry k =
     (let queryLower = toLowerCase qry;
          selectedIndices = scanKeywords (length allExamples) queryLower;
          selectedIndices' = (if length selectedIndices = 0 then [0, 1, 2] else selectedIndices)
      in map (\<lambda>idx. elementAt allExamples idx) (slice0 k selectedIndices'))"

section \<open>The knowledge base and the semantic retriever\<close>

datatype error = ModelInitError | EmbedQueryError | VectorsLengthMismatch

text \<open>
  A JavaScript number (an IEEE double): NaN, a finite number (\<open>Num 0\<close> is \<open>+0\<close>), the
  negative zero, or an infinity. Every finite double is a real number, so \<open>Num\<close> has
  room for all of them.
\<close>

datatype jsnum = NaN | Num real | NegZero | PosInf | NegInf

text \<open>
  The arithmetic of doubles as the engine performs it: \<open>+\<close>, \<open>*\<close>, \<open>/\<close>,
  \<open>Math.sqrt\<close> and \<open>**\<close>. The model takes the five operations as given and assumes
  nothing about how they round, overflow or underflow.
\<close>

record Arith =
  fadd :: "jsnum \<Rightarrow> jsnum \<Rightarrow> jsnum"
  fmul :: "jsnum \<Rightarrow> jsnum \<Rightarrow> jsnum"
  fdiv :: "jsnum \<Rightarrow> jsnum \<Rightarrow> jsnum"
  fsqrt :: "jsnum \<Rightarrow> jsnum"
  fpow :: "jsnum \<Rightarrow> jsnum \<Rightarrow> jsnum"

primrec level :: "jsnum \<Rightarrow> int" where
  \<comment> \<open>below, among or above the finite numbers\<close>
  "level NaN = 0"
| "level (Num x) = 0"
| "level NegZero = 0"
| "level PosInf = 1"
| "level NegInf = - 1"

primrec finiteValue :: "jsnum \<Rightarrow> real" where
  "finiteValue NaN = 0"
| "finiteValue (Num x) = x"
| "finiteValue NegZero = 0"
| "finiteValue PosInf = 0"
| "finiteValue NegInf = 0"

definition jsLt :: "jsnum \<Rightarrow> jsnum \<Rightarrow> bool" where
  \<comment> \<open>\<open>a < b\<close> on doubles: false as soon as one side is NaN; the two zeros are equal\<close>
  "jsLt a b =
     (a \<noteq> NaN \<and> b \<noteq> NaN \<and>
      (level a < level b \<or> (level a = level b \<and> finiteValue a < finiteValue b)))"

record DocMetadata =
  type :: string
  category :: "string option"
  difficulty :: "string option"
  source :: string
  filePath :: string

record Document =
  doc_id :: string
  content :: string
  metadata :: DocMetadata
  embedding :: "jsnum list option"

record StoreMetadata =
  indexed_at :: string
  total_documents :: nat
  embedding_model :: string

record VectorStore =
  documents :: "Document list"
  store_metadata :: StoreMetadata

record RetrievedDocument =
  document :: Document
  score :: jsnum

record SearchFilter =
  filter_type :: "string option"
  filter_category :: "string option"
  filter_difficulty :: "string option"

text \<open>
  The three module variables of lines 245 to 247, and a log of the calls of
  \<open>model.embedQuery\<close> (not a variable of the program: it records which texts were sent to
  the embedding provider, in order).
\<close>

record state =
  embeddingsModel :: bool
  embeddingsCache :: "string \<rightharpoonup> jsnum list"
  vectorStore :: "VectorStore option"
  providerCalls :: "string list"

text \<open>
  What the program cannot decide: the index file as \<open>readFileSync\<close> and \<open>JSON.parse\<close>
  give it (\<open>None\<close> when either throws), whether the embeddings model can be constructed
  from the configuration, what the provider answers to its \<open>n\<close>-th request, and the
  arithmetic of the engine.
\<close>

record world =
  storeFile :: "VectorStore option"
  modelInit :: "error option"
  embedQuery :: "nat \<Rightarrow> string \<Rightarrow> error + jsnum list"
  arith :: Arith

definition sumSquares :: "Arith \<Rightarrow> jsnum list \<Rightarrow> jsnum" where
  \<comment> \<open>\<open>a.reduce((sum, val) => sum + val ** 2, 0)\<close>\<close>
  "sumSquares ar a = foldl (\<lambda>sum val. fadd ar sum (fpow ar val (Num 2))) (Num 0) a"

definition dotProduct :: "Arith \<Rightarrow> jsnum list \<Rightarrow> jsnum list \<Rightarrow> jsnum" where
  \<comment> \<open>\<open>a.reduce((sum, val, i) => sum + val * b[i], 0)\<close>, called with \<open>b\<close> as long as \<open>a\<close>\<close>
  "dotProduct ar a b =
     foldl (\<lambda>sum (val, i). fadd ar sum (fmul ar val (b ! i))) (Num 0) (zip a [0..<length a])"

definition cosineSimilarity :: "Arith \<Rightarrow> jsnum list \<Rightarrow> jsnum list \<Rightarrow> error + jsnum" where
  "cosineSimilarity ar a b =
     (if length a \<noteq> length b then Inl VectorsLengthMismatch
      else
        (let magnitudeA = fsqrt ar (sumSquares ar a);
             magnitudeB = fsqrt ar (sumSquares ar b)
         in Inr (fdiv ar (dotProduct ar a b) (fmul ar magnitudeA magnitudeB))))"

definition loadVectorStore :: "world \<Rightarrow> state \<Rightarrow> VectorStore option \<times> state" where
  "loadVectorStore w s =
     (case vectorStore s of
        Some store \<Rightarrow> (Some store, s)
      | None \<Rightarrow>
          (case storeFile w of
             Some store \<Rightarrow> (Some store, s\<lparr>vectorStore := Some store\<rparr>)
           | None \<Rightarrow> (None, s)))"

definition getEmbeddingsModel :: "world \<Rightarrow> state \<Rightarrow> (error + unit) \<times> state" where
  "getEmbeddingsModel w s =
     (if \<not> embeddingsModel s then
        (case modelInit w of
           Some e \<Rightarrow> (Inl e, s)
         | None \<Rightarrow> (Inr (), s\<lparr>embeddingsModel := True\<rparr>))
      else (Inr (), s))"

definition callEmbedQuery :: "world \<Rightarrow> state \<Rightarrow> string \<Rightarrow> (error + jsnum list) \<times> state" where
  \<comment> \<open>\<open>await model.embedQuery(text)\<close>\<close>
  "callEmbedQuery w s text =
     (embedQuery w (length (providerCalls s)) text, s\<lparr>providerCalls := providerCalls s @ [text]\<rparr>)"

definition truthy :: "string option \<Rightarrow> bool" where
  \<comment> \<open>an optional string in a condition: \<open>undefined\<close> and the empty string are falsy\<close>
  "truthy v = (case v of None \<Rightarrow> False | Some x \<Rightarrow> x \<noteq> [])"

definition matchesFilter :: "SearchFilter \<Rightarrow> Document \<Rightarrow> bool" where
  \<comment> \<open>the callback of lines 539 to 544\<close>
  "matchesFilter f doc =
     (if truthy (filter_type f) \<and> Some (type (metadata doc)) \<noteq> filter_type f then False
      else if truthy (filter_category f) \<and> category (metadata doc) \<noteq> filter_category f then False
      else if truthy (filter_difficulty f) \<and> difficulty (metadata doc) \<noteq> filter_difficulty f
      then False
      else True)"

definition documentsToSearch :: "VectorStore \<Rightarrow> SearchFilter option \<Rightarrow> Document list" where
  "documentsToSearch store flt =
     (case flt of
        None \<Rightarrow> documents store
      | Some f \<Rightarrow> filter (matchesFilter f) (documents store))"

fun scoreDocuments ::
  "Arith \<Rightarrow> jsnum list \<Rightarrow> Document list \<Rightarrow> error + RetrievedDocument list" where
  \<comment> \<open>lines 549 to 553: \<open>.filter(doc => doc.embedding).map(doc => ...)\<close>; the first
      \<open>cosineSimilarity\<close> that throws ends the whole expression\<close>
  "scoreDocuments ar queryEmbedding [] = Inr []"
| "scoreDocuments ar queryEmbedding (doc # docs) =
     (case embedding doc of
        None \<Rightarrow> scoreDocuments ar queryEmbedding docs
      | Some e \<Rightarrow>
          (case cosineSimilarity ar queryEmbedding e of
             Inl err \<Rightarrow> Inl err
           | Inr sc \<Rightarrow>
               (case scoreDocuments ar queryEmbedding docs of
                  Inl err \<Rightarrow> Inl err
                | Inr rest \<Rightarrow> Inr (\<lparr>document = doc, score = sc\<rparr> # rest))))"

definition compareScores :: "RetrievedDocument \<Rightarrow> RetrievedDocument \<Rightarrow> int" where
  \<comment> \<open>the sign of \<open>(a, b) => b.score - a.score\<close> as \<open>Array.prototype.sort\<close> reads it.
      The difference of two doubles is negative exactly when the first is less than the
      second and positive exactly when it is greater (a difference of distinct doubles
      never rounds to zero). With a NaN operand, or two equal infinities, the difference
      is NaN, which the sort reads as \<open>+0\<close>.\<close>
  "compareScores a b =
     (if jsLt (score b) (score a) then - 1 else if jsLt (score a) (score b) then 1 else 0)"

fun insertSorted :: "RetrievedDocument \<Rightarrow> RetrievedDocument list \<Rightarrow> RetrievedDocument list" where
  "insertSorted x [] = [x]"
| "insertSorted x (y # ys) =
     (if compareScores x y \<le> 0 then x # y # ys else y # insertSorted x ys)"

fun sortByScore :: "RetrievedDocument list \<Rightarrow> RetrievedDocument list" where
  \<comment> \<open>\<open>.sort((a, b) => b.score - a.score)\<close>. ECMAScript requires the sort to be stable;
      when the comparator is consistent, that is when no score is NaN, every stable sort
      returns the same array, and insertion sort stands for it here. With NaN among the
      scores the order is left to the engine and may differ from the one computed here:
      nothing below relies on the order in that case, beyond inputs of two documents.\<close>
  "sortByScore [] = []"
| "sortByScore (x # xs) = insertSorted x (sortByScore xs)"

definition docsWithScores ::
  "Arith \<Rightarrow> jsnum list \<Rightarrow> Document list \<Rightarrow> int \<Rightarrow> error + RetrievedDocument list" where
  \<comment> \<open>lines 548 to 555\<close>
  "docsWithScores ar queryEmbedding docs k =
     (case scoreDocuments ar queryEmbedding docs of
        Inl err \<Rightarrow> Inl err
      | Inr scored \<Rightarrow> Inr (slice0 k (sortByScore scored)))"

definition searchTry ::
  "world \<Rightarrow> state \<Rightarrow> VectorStore \<Rightarrow> string \<Rightarrow> int \<Rightarrow> SearchFilter option
     \<Rightarrow> (error + RetrievedDocument list) \<times> state" where
  \<comment> \<open>the \<open>try\<close> block of lines 528 to 563\<close>
  "searchTry w s store qry k flt =
     (case getEmbeddingsModel w s of
        (Inl err, s1) \<Rightarrow> (Inl err, s1)
      | (Inr model, s1) \<Rightarrow>
          (case callEmbedQuery w s1 qry of
             (Inl err, s2) \<Rightarrow> (Inl err, s2)
           | (Inr queryEmbedding, s2) \<Rightarrow>
               (docsWithScores (arith w) queryEmbedding (documentsToSearch store flt) k, s2)))"

definition searchKnowledgeBase ::
  "world \<Rightarrow> state \<Rightarrow> string \<Rightarrow> int \<Rightarrow> SearchFilter option
     \<Rightarrow> (error + RetrievedDocument list) \<times> state" where
  \<comment> \<open>\<open>Inl\<close> is a rejected promise, \<open>Inr\<close> a fulfilled one\<close>
  "searchKnowledgeBase w s qry k flt =
     (case loadVectorStore w s of
        (None, s1) \<Rightarrow> (Inr [], s1)
      | (Some store, s1) \<Rightarrow>
          if length (documents store) = 0 then (Inr [], s1)
          else
            (case searchTry w s1 store qry k flt of
               (Inl err, s2) \<Rightarrow> (Inr [], s2)
             | (Inr found, s2) \<Rightarrow> (Inr found, s2)))"

definition typeFilter :: "string \<Rightarrow> SearchFilter option" where
  \<comment> \<open>the object literal \<open>{ type }\<close> passed as the optional argument \<open>filter\<close>\<close>
  "typeFilter ty =
     Some \<lparr>filter_type = Some ty, filter_category = None, filter_difficulty = None\<rparr>"

definition searchKnowledgeBaseByType ::
  "world \<Rightarrow> state \<Rightarrow> string \<Rightarrow> string \<Rightarrow> int \<Rightarrow> (error + RetrievedDocument list) \<times> state" where
  "searchKnowledgeBaseByType w s qry ty k = searchKnowledgeBase w s qry k (typeFilter ty)"

section \<open>The context aggregator (getContextForQuery)\<close>

record ContextMetadata =
  totalDocs :: nat
  types :: "string \<rightharpoonup> nat"

record Context =
  vocabularies :: "string list"
  patterns :: "string list"
  examples :: "string list"
  context_metadata :: ContextMetadata

definition typeCount :: "RetrievedDocument list \<Rightarrow> (string \<rightharpoonup> nat)" where
  \<comment> \<open>lines 603 to 607: \<open>acc[type] = (acc[type] || 0) + 1\<close>\<close>
  "typeCount allDocs =
     foldl (\<lambda>acc item.
              (let ty = type (metadata (document item))
               in acc(ty \<mapsto> (case acc ty of None \<Rightarrow> 0 | Some n \<Rightarrow> n) + 1)))
       Map.empty allDocs"

definition emptyContext :: Context where
  \<comment> \<open>the value of the \<open>catch\<close> branch, lines 620 to 625\<close>
  "emptyContext =
     \<lparr>vocabularies = [], patterns = [], examples = [],
      context_metadata = \<lparr>totalDocs = 0, types = Map.empty\<rparr>\<rparr>"

definition getContextForQuery :: "world \<Rightarrow> state \<Rightarrow> string \<Rightarrow> Context \<times> state" where
  \<comment> \<open>The three searches start in the order of the array and each runs up to its first
      \<open>await\<close> before the next starts, so their requests reach the provider in this order;
      the rest of each search reads no state. \<open>Promise.all\<close> rejects when one of them
      rejects, and the \<open>catch\<close> branch then answers.\<close>
  "getContextForQuery w s qry =
     (case searchKnowledgeBaseByType w s qry ''vocabulary'' 2 of (r1, s1) \<Rightarrow>
      case searchKnowledgeBaseByType w s1 qry ''pattern'' 2 of (r2, s2) \<Rightarrow>
      case searchKnowledgeBaseByType w s2 qry ''example'' 3 of (r3, s3) \<Rightarrow>
        (case (r1, r2, r3) of
           (Inr vocabularies', Inr patterns', Inr examples') \<Rightarrow>
             (let allDocs = vocabularies' @ patterns' @ examples'
              in \<lparr>vocabularies = map (\<lambda>item. content (document item)) vocabularies',
                  patterns = map (\<lambda>item. content (document item)) patterns',
                  examples = map (\<lambda>item. content (document item)) examples',
                  context_metadata = \<lparr>totalDocs = length allDocs, types = typeCount allDocs\<rparr>\<rparr>)
         | _ \<Rightarrow> emptyContext,
         s3))"

section \<open>Notions used in the statements\<close>

definition jsGe :: "jsnum \<Rightarrow> jsnum \<Rightarrow> bool" where
  \<comment> \<open>\<open>a >= b\<close> on doubles: false as soon as one side is NaN\<close>
  "jsGe a b = (a \<noteq> NaN \<and> b \<noteq> NaN \<and> \<not> jsLt a b)"

definition jsEq :: "jsnum \<Rightarrow> jsnum \<Rightarrow> bool" where
  \<comment> \<open>\<open>a === b\<close> on doubles: NaN equals nothing, the two zeros are equal\<close>
  "jsEq a b = (a \<noteq> NaN \<and> b \<noteq> NaN \<and> \<not> jsLt a b \<and> \<not> jsLt b a)"

definition isZeroOrNaN :: "jsnum \<Rightarrow> bool" where
  "isZeroOrNaN x = (x = Num 0 \<or> x = NegZero \<or> x = NaN)"

definition ieeeZeroLaws :: "Arith \<Rightarrow> bool" where
  \<comment> \<open>what IEEE 754 and ECMAScript fix about zeros and NaN, whatever the rounding:
      \<open>(+0) ** 2\<close>, \<open>(+0) + (+0)\<close>, \<open>(+0) + (-0)\<close> and \<open>Math.sqrt(+0)\<close> are \<open>+0\<close>;
      a sum with NaN is NaN; a product with \<open>+0\<close> is a zero, or NaN when the other factor
      is infinite or NaN; and \<open>+0\<close> or NaN divided by a zero or by NaN is NaN\<close>
  "ieeeZeroLaws ar =
     (fpow ar (Num 0) (Num 2) = Num 0
      \<and> fadd ar (Num 0) (Num 0) = Num 0
      \<and> fadd ar (Num 0) NegZero = Num 0
      \<and> fadd ar (Num 0) NaN = NaN
      \<and> (\<forall>x. fadd ar NaN x = NaN)
      \<and> fsqrt ar (Num 0) = Num 0
      \<and> (\<forall>x. isZeroOrNaN (fmul ar x (Num 0)))
      \<and> (\<forall>d. isZeroOrNaN d \<longrightarrow> fdiv ar (Num 0) d = NaN \<and> fdiv ar NaN d = NaN))"

definition indexIsEmpty :: "world \<Rightarrow> state \<Rightarrow> bool" where
  \<comment> \<open>the index is absent or has no document: the condition of line 523\<close>
  "indexIsEmpty w s =
     (case fst (loadVectorStore w s) of None \<Rightarrow> True | Some store \<Rightarrow> documents store = [])"

definition searchFails :: "world \<Rightarrow> state \<Rightarrow> string \<Rightarrow> int \<Rightarrow> SearchFilter option \<Rightarrow> bool" where
  \<comment> \<open>the \<open>try\<close> block of the search is entered and throws\<close>
  "searchFails w s qry k flt =
     (case loadVectorStore w s of
        (None, s1) \<Rightarrow> False
      | (Some store, s1) \<Rightarrow>
          documents store \<noteq> [] \<and> isl (fst (searchTry w s1 store qry k flt)))"

definition retrievalFails :: "world \<Rightarrow> state \<Rightarrow> string \<Rightarrow> int \<Rightarrow> SearchFilter option \<Rightarrow> bool" where
  \<comment> \<open>a retrieval call fails: empty index, or an error of the model, the provider or
      the scoring\<close>
  "retrievalFails w s qry k flt = (indexIsEmpty w s \<or> searchFails w s qry k flt)"

definition qualifyingDocuments :: "world \<Rightarrow> state \<Rightarrow> SearchFilter option \<Rightarrow> Document list" where
  \<comment> \<open>the documents of the index that satisfy the filter and carry an embedding\<close>
  "qualifyingDocuments w s flt =
     (case fst (loadVectorStore w s) of
        None \<Rightarrow> []
      | Some store \<Rightarrow> filter (\<lambda>doc. embedding doc \<noteq> None) (documentsToSearch store flt))"

section \<open>Concrete inputs\<close>

definition unclosedCompletion :: string where
  \<comment> \<open>a completion with a fence, prose, an unclosed brace, no prefixes and no limit clause\<close>
  "unclosedCompletion =
     ''Here you go:'' @ [CHR 0x0A] @ ''```sparql'' @ [CHR 0x0A] @
     ''SELECT ?d WHERE { ?d a Dataset'' @ [CHR 0x0A] @ ''```''"

definition twoUnclosedCompletion :: string where
  \<comment> \<open>two unclosed braces before a limit clause\<close>
  "twoUnclosedCompletion = ''SELECT ?x WHERE { ?x a ?y . { ?x ?p ?o LIMIT 10''"

definition nestedLimitQuery :: string where
  \<comment> \<open>a query with a subquery that has a limit clause of its own\<close>
  "nestedLimitQuery =
     ''PREFIX a: <b> SELECT * WHERE { { SELECT ?s WHERE { ?s ?p ?o } LIMIT 5 } } LIMIT 10''"

definition twoExamples :: "Example list" where
  "twoExamples = [\<lparr>query = ''q0'', sparql = ''s0''\<rparr>, \<lparr>query = ''q1'', sparql = ''s1''\<rparr>]"

text \<open>
  An arithmetic without rounding, for the concrete inputs below: their numbers are 0 and 1,
  and on these IEEE arithmetic is exact. NaN, the zeros and the infinities behave as IEEE
  754 prescribes; only the exponent 2 occurs in the program.
\<close>

primrec signBit :: "jsnum \<Rightarrow> bool" where
  "signBit NaN = False"
| "signBit (Num x) = (x < 0)"
| "signBit NegZero = True"
| "signBit PosInf = False"
| "signBit NegInf = True"

definition isZero :: "jsnum \<Rightarrow> bool" where
  "isZero x = (x = Num 0 \<or> x = NegZero)"

definition signedZero :: "bool \<Rightarrow> jsnum" where
  "signedZero negative = (if negative then NegZero else Num 0)"

definition signedInf :: "bool \<Rightarrow> jsnum" where
  "signedInf negative = (if negative then NegInf else PosInf)"

fun exactAdd :: "jsnum \<Rightarrow> jsnum \<Rightarrow> jsnum" where
  "exactAdd NaN y = NaN"
| "exactAdd x NaN = NaN"
| "exactAdd PosInf NegInf = NaN"
| "exactAdd NegInf PosInf = NaN"
| "exactAdd PosInf y = PosInf"
| "exactAdd x PosInf = PosInf"
| "exactAdd NegInf y = NegInf"
| "exactAdd x NegInf = NegInf"
| "exactAdd NegZero NegZero = NegZero"
| "exactAdd NegZero (Num y) = Num y"
| "exactAdd (Num x) NegZero = Num x"
| "exactAdd (Num x) (Num y) = Num (x + y)"

definition exactMul :: "jsnum \<Rightarrow> jsnum \<Rightarrow> jsnum" where
  "exactMul x y =
     (if x = NaN \<or> y = NaN then NaN
      else if level x \<noteq> 0 \<or> level y \<noteq> 0 then
        (if isZero x \<or> isZero y then NaN else signedInf (signBit x \<noteq> signBit y))
      else if finiteValue x * finiteValue y = 0 then signedZero (signBit x \<noteq> signBit y)
      else Num (finiteValue x * finiteValue y))"

definition exactDiv :: "jsnum \<Rightarrow> jsnum \<Rightarrow> jsnum" where
  "exactDiv x y =
     (if x = NaN \<or> y = NaN then NaN
      else if level x \<noteq> 0 then
        (if level y \<noteq> 0 then NaN else signedInf (signBit x \<noteq> signBit y))
      else if level y \<noteq> 0 then signedZero (signBit x \<noteq> signBit y)
      else if isZero y then
        (if isZero x then NaN else signedInf (signBit x \<noteq> signBit y))
      else if isZero x then signedZero (signBit x \<noteq> signBit y)
      else Num (finiteValue x / finiteValue y))"

definition exactSqrt :: "jsnum \<Rightarrow> jsnum" where
  "exactSqrt x =
     (case x of
        NaN \<Rightarrow> NaN
      | Num v \<Rightarrow> if v < 0 then NaN else Num (sqrt v)
      | NegZero \<Rightarrow> NegZero
      | PosInf \<Rightarrow> PosInf
      | NegInf \<Rightarrow> NaN)"

definition exactArith :: Arith where
  "exactArith =
     \<lparr>fadd = exactAdd, fmul = exactMul, fdiv = exactDiv, fsqrt = exactSqrt,
      fpow = (\<lambda>x y. if y = Num 2 then exactMul x x else NaN)\<rparr>"

definition mkDoc :: "string \<Rightarrow> string \<Rightarrow> jsnum list option \<Rightarrow> Document" where
  "mkDoc name ty emb =
     \<lparr>doc_id = name, content = name,
      metadata = \<lparr>type = ty, category = None, difficulty = None,
                  source = ''kb'', filePath = ''kb.md''\<rparr>,
      embedding = emb\<rparr>"

definition mkStore :: "Document list \<Rightarrow> VectorStore" where
  "mkStore docs =
     \<lparr>documents = docs,
      store_metadata = \<lparr>indexed_at = ''2025'', total_documents = length docs,
                        embedding_model = ''nomic-embed-text''\<rparr>\<rparr>"

definition initialState :: state where
  "initialState =
     \<lparr>embeddingsModel = False, embeddingsCache = Map.empty, vectorStore = None,
      providerCalls = []\<rparr>"

definition cachedState :: state where
  "cachedState = initialState\<lparr>embeddingsCache := [''q'' \<mapsto> [Num 1]]\<rparr>"

definition zeroDoc :: Document where
  "zeroDoc = mkDoc ''zero'' ''vocabulary'' (Some [Num 0])"

definition unitDoc :: Document where
  "unitDoc = mkDoc ''unit'' ''example'' (Some [Num 1])"

definition zeroWorld :: world where
  "zeroWorld =
     \<lparr>storeFile = Some (mkStore [zeroDoc, unitDoc]), modelInit = None,
      embedQuery = (\<lambda>n text. Inr [Num 1]), arith = exactArith\<rparr>"

definition unitZeroWorld :: world where
  "unitZeroWorld =
     \<lparr>storeFile = Some (mkStore [unitDoc, zeroDoc]), modelInit = None,
      embedQuery = (\<lambda>n text. Inr [Num 1]), arith = exactArith\<rparr>"

definition failingWorld :: world where
  "failingWorld =
     \<lparr>storeFile = Some (mkStore [unitDoc]), modelInit = None,
      embedQuery = (\<lambda>n text. Inl EmbedQueryError), arith = exactArith\<rparr>"

definition emptyWorld :: world where
  "emptyWorld =
     \<lparr>storeFile = None, modelInit = None, embedQuery = (\<lambda>n text. Inr [Num 1]),
      arith = exactArith\<rparr>"

definition kbDocuments :: "Document list" where
  "kbDocuments =
     [mkDoc ''v1'' ''vocabulary'' (Some [Num 1, Num 0]),
      mkDoc ''p1'' ''pattern'' (Some [Num 0, Num 1]),
      mkDoc ''e1'' ''example'' (Some [Num 1, Num 0]),
      mkDoc ''e2'' ''example'' (Some [Num 0, Num 1]),
      mkDoc ''e3'' ''example'' (Some [Num 1, Num 0])]"

definition steadyWorld :: world where
  "steadyWorld =
     \<lparr>storeFile = Some (mkStore kbDocuments), modelInit = None,
      embedQuery = (\<lambda>n text. Inr [Num 1, Num 0]), arith = exactArith\<rparr>"

definition flakyWorld :: world where
  "flakyWorld =
     \<lparr>storeFile = Some (mkStore kbDocuments), modelInit = None,
      embedQuery = (\<lambda>n text. if n = 0 then Inl EmbedQueryError else Inr [Num 1, Num 0]),
      arith = exactArith\<rparr>"

section \<open>The sanitizer and unclosed braces\<close>

text \<open>
  C1. The claim: whenever open braces outnumber close braces after the extraction steps,
  the output of the sanitizer has balanced braces, the missing braces being inserted
  before the limit clause, or at the end of the text when there is no limit clause; in
  particular for the completion \<open>unclosedCompletion\<close>.
  The code inserts one brace, and only in front of a limit clause
  (\<open>closeBeforeLimit\<close>). On \<open>unclosedCompletion\<close> it adds the default prefixes and
  leaves the one open brace unclosed (and the prose in place); on
  \<open>twoUnclosedCompletion\<close> it inserts one of the two missing braces.
\<close>

theorem cleanSparqlResponse_leaves_braces_open:
  "cleanSparqlResponse unclosedCompletion =
     requiredPrefixes @ ''Here you go:'' @ [CHR 0x0A] @
     ''SELECT ?d WHERE { ?d a Dataset'' @ [CHR 0x0A]
   \<and> countChar (CHR ''{'') (cleanSparqlResponse unclosedCompletion) = 1
   \<and> countChar (CHR ''}'') (cleanSparqlResponse unclosedCompletion) = 0
   \<and> cleanSparqlResponse twoUnclosedCompletion =
       requiredPrefixes @ ''SELECT ?x WHERE { ?x a ?y . { ?x ?p ?o'' @ [CHR 0x0A] @ ''} LIMIT 10''
   \<and> countChar (CHR ''{'') (cleanSparqlResponse twoUnclosedCompletion) = 2
   \<and> countChar (CHR ''}'') (cleanSparqlResponse twoUnclosedCompletion) = 1"
  unfolding unclosedCompletion_def twoUnclosedCompletion_def requiredPrefixes_def
  by code_simp

section \<open>The keyword fallback and short example lists\<close>

text \<open>
  C2. The claim: every element of the result of the keyword fallback is an example of the
  loaded sequence, indices out of range being skipped, also in the default branch with
  fewer than three examples, and the result is empty only when the example sequence is.
  The loop over the table checks \<open>idx < allExamples.length\<close>; the default branch adds
  0, 1 and 2 without that check. With two examples and a query that matches no rule the
  third element of the result is \<open>undefined\<close> (\<open>None\<close>); with no example at all the
  result is three times \<open>undefined\<close>, not the empty sequence.
\<close>

theorem getRelevantExamples_default_out_of_range:
  "getRelevantExamples twoExamples ''hola'' 3 =
     [Some \<lparr>query = ''q0'', sparql = ''s0''\<rparr>, Some \<lparr>query = ''q1'', sparql = ''s1''\<rparr>, None]
   \<and> getRelevantExamples [] ''hola'' 3 = [None, None, None]"
  unfolding twoExamples_def
  by code_simp

section \<open>The context aggregator counts what it returns\<close>

text \<open>
  C10. For every query, \<open>metadata.totalDocs\<close> of the context aggregator is the sum of
  the lengths of the three sequences it returns.
\<close>

theorem getContextForQuery_totalDocs:
  "totalDocs (context_metadata (fst (getContextForQuery w s qry))) =
     length (vocabularies (fst (getContextForQuery w s qry))) +
     length (patterns (fst (getContextForQuery w s qry))) +
     length (examples (fst (getContextForQuery w s qry)))"
  by (simp add: getContextForQuery_def emptyContext_def Let_def split: prod.split sum.split)

section \<open>The sanitizer applied twice\<close>

text \<open>
  C4. The sanitizer is idempotent on every text that starts with prefix declarations,
  ends in a limit clause and has balanced braces.
  The code breaks this on \<open>nestedLimitQuery\<close>, which is well-formed in that sense. The
  extraction cuts the text at its first limit clause, the one of the subquery, which
  leaves two braces open; the repair step, which sets out to close the text, inserts one
  brace only (the defect of C1), so the first pass returns a text with an open brace and
  the second pass changes it.
\<close>

theorem cleanSparqlResponse_not_idempotent:
  "prefix ''PREFIX'' nestedLimitQuery
   \<and> limitAt (drop 74 nestedLimitQuery) = Some (length nestedLimitQuery - 74)
   \<and> countChar (CHR ''{'') nestedLimitQuery = countChar (CHR ''}'') nestedLimitQuery
   \<and> cleanSparqlResponse nestedLimitQuery =
       ''PREFIX a: <b> SELECT * WHERE { { SELECT ?s WHERE { ?s ?p ?o }'' @ [CHR 0x0A] @ ''} LIMIT 5''
   \<and> cleanSparqlResponse (cleanSparqlResponse nestedLimitQuery) =
       ''PREFIX a: <b> SELECT * WHERE { { SELECT ?s WHERE { ?s ?p ?o }'' @ [CHR 0x0A] @ ''}''
         @ [CHR 0x0A] @ ''} LIMIT 5''
   \<and> cleanSparqlResponse (cleanSparqlResponse nestedLimitQuery)
       \<noteq> cleanSparqlResponse nestedLimitQuery"
  unfolding nestedLimitQuery_def
  by code_simp

section \<open>The sanitizer on well-formed input\<close>

lemma digit_not_space: "isDigit c \<Longrightarrow> \<not> isSpace c"
  by (auto simp: isDigit_def isSpace_def)

lemma trim_id: "s \<noteq> [] \<Longrightarrow> \<not> isSpace (hd s) \<Longrightarrow> \<not> isSpace (last s) \<Longrightarrow> trim s = s"
proof -
  assume a: "s \<noteq> []" "\<not> isSpace (hd s)" "\<not> isSpace (last s)"
  then have 1: "dropWhile isSpace s = s" by (cases s) auto
  from a have "rev s \<noteq> []" "\<not> isSpace (hd (rev s))" by (auto simp: hd_rev)
  then have 2: "dropWhile isSpace (rev s) = rev s" by (cases "rev s") auto
  show ?thesis by (simp add: trim_def 1 2)
qed

lemma indexOf_None_Cons:
  "indexOf pat (c # cs) = None \<Longrightarrow> \<not> prefix pat (c # cs) \<and> indexOf pat cs = None"
  by (auto split: if_splits)

lemma removeFence_id: "indexOf lit s = None \<Longrightarrow> removeFence lit s = s"
  by (induction s) (auto split: if_splits)

lemma indexOf_longer:
  "indexOf pat s = None \<Longrightarrow> indexOf (pat @ ext) s = None"
  by (induction s) (auto split: if_splits simp: append_prefixD)

lemma limitAt_first_char:
  "canonicalize c \<noteq> CHR ''L'' \<Longrightarrow> limitAt (c # cs) = None"
  by (simp add: limitAt_def canonicalize_def)

lemma findLimit_skip:
  "canonicalize c \<noteq> CHR ''L'' \<Longrightarrow> findLimit (c # cs) = map_option Suc (findLimit cs)"
  by (simp add: limitAt_first_char)

lemma findLimit_after_PREFIX:
  assumes "findLimit (''PREFIX'' @ r) = Some n"
  shows "\<exists>m. findLimit r = Some m \<and> n = 6 + m"
proof -
  have "findLimit (''PREFIX'' @ r) = map_option (\<lambda>m. Suc (Suc (Suc (Suc (Suc (Suc m)))))) (findLimit r)"
    by (simp add: findLimit_skip canonicalize_def option.map_comp comp_def del: findLimit.simps)
  with assms have "Some n = map_option (\<lambda>m. Suc (Suc (Suc (Suc (Suc (Suc m)))))) (findLimit r)"
    by (simp only:)
  then show ?thesis by (cases "findLimit r") simp_all
qed

lemma limitAt_last_digit:
  assumes "limitAt s = Some n"
  shows "n \<le> length s \<and> 0 < n \<and> isDigit (s ! (n - 1))"
proof -
  define r where "r = drop 5 s"
  define ws where "ws = takeWhile isSpace r"
  define ds where "ds = takeWhile isDigit (dropWhile isSpace r)"
  define rest where "rest = dropWhile isDigit (dropWhile isSpace r)"
  from assms have ci: "ciPrefix ''LIMIT'' s"
    by (simp add: limitAt_def split: if_splits)
  have len5: "ciPrefix ''LIMIT'' t \<Longrightarrow> 5 \<le> length t" for t
    by (cases t; cases "tl t"; cases "tl (tl t)"; cases "tl (tl (tl t))"; cases "tl (tl (tl (tl t)))") auto
  from ci have l5: "5 \<le> length s" by (rule len5)
  from assms ci have n: "n = 5 + length ws + length ds" and ds: "ds \<noteq> []"
    by (auto simp: limitAt_def Let_def r_def ws_def ds_def split: if_splits)
  have "r = ws @ ds @ rest"
    by (simp add: ws_def ds_def rest_def)
  then have "take 5 s @ drop 5 s = take 5 s @ ws @ ds @ rest" by (simp only: r_def)
  then have s: "s = take 5 s @ ws @ ds @ rest" by (simp only: append_take_drop_id)
  have idx: "n - 1 = length (take 5 s @ ws) + (length ds - 1)"
    using l5 ds n by (cases ds) simp_all
  have "s ! (n - 1) = ((take 5 s @ ws) @ ds @ rest) ! (n - 1)" using s by simp
  also have "\<dots> = (ds @ rest) ! (length ds - 1)"
    unfolding idx by (rule nth_append_length_plus)
  also have "\<dots> = ds ! (length ds - 1)"
    using ds by (simp add: nth_append)
  also have "\<dots> = last ds" using ds by (simp add: last_conv_nth)
  finally have "s ! (n - 1) = last ds" .
  moreover have "last ds \<in> set ds" using ds by simp
  then have "isDigit (last ds)" unfolding ds_def by (meson set_takeWhileD)
  moreover have "n \<le> length s"
  proof -
    have "length s = length (take 5 s @ ws @ ds @ rest)" using s by simp
    then show ?thesis using l5 n by simp
  qed
  ultimately show ?thesis using n by simp
qed

lemma findLimit_last_digit:
  "findLimit s = Some n \<Longrightarrow> n \<le> length s \<and> 0 < n \<and> isDigit (s ! (n - 1))"
proof (induction s arbitrary: n)
  case Nil
  then show ?case by simp
next
  case (Cons c cs)
  show ?case
  proof (cases "limitAt (c # cs)")
    case (Some m)
    with Cons.prems have "m = n" by simp
    with Some limitAt_last_digit show ?thesis by blast
  next
    case None
    with Cons.prems obtain m where m: "findLimit cs = Some m" "n = Suc m" by auto
    from Cons.IH[OF m(1)] m(2) show ?thesis by (cases m) auto
  qed
qed

text \<open>
  Where the repair has nothing to do, the sanitizer changes nothing: a text that starts
  with the upper-case keyword \<open>PREFIX\<close>, contains no code fence, ends in its first limit
  clause and has balanced braces is returned as it is.
\<close>

lemma cleanSparqlResponse_fixpoint:
  assumes p: "prefix ''PREFIX'' x"
    and f: "\<not> includesStr x ''```''"
    and l: "findLimit x = Some (length x)"
    and b: "countChar (CHR ''{'') x = countChar (CHR ''}'') x"
  shows "cleanSparqlResponse x = x
    \<and> cleanSparqlResponse (cleanSparqlResponse x) = cleanSparqlResponse x"
proof -
  from p obtain r where x: "x = ''PREFIX'' @ r" by (auto simp: prefix_def)
  from findLimit_last_digit[OF l] have ne: "x \<noteq> []" and dg: "isDigit (last x)"
    by (auto simp: last_conv_nth)
  have hd: "\<not> isSpace (hd x)" using x by (simp add: isSpace_def)
  have t: "trim x = x" using ne hd dg by (simp add: trim_id digit_not_space)
  from f have i3: "indexOf ''```'' x = None" by (simp add: includesStr_def)
  from indexOf_longer[OF i3, of "''sparql''"] have i9: "indexOf ''```sparql'' x = None" by simp
  have rf: "removeFence ''```'' (removeFence ''```sparql'' x) = x"
    by (simp only: removeFence_id[OF i9] removeFence_id[OF i3])
  from l x obtain m where m: "findLimit r = Some m" "length x = 6 + m"
    using findLimit_after_PREFIX by blast
  have mk: "matchKeywordToLimit ''PREFIX'' x = Some x"
    using m x by (simp add: canonicalize_def)
  have io: "indexOf ''PREFIX'' x = Some 0" using x by simp
  have ex: "extractQuery x = x"
    by (simp add: extractQuery_def t rf mk io l)
  have ap: "addPrefixes x = x" by (simp add: addPrefixes_def includesStr_def io)
  have rb: "repairBraces x = x" by (simp add: repairBraces_def b)
  have "cleanSparqlResponse x = x" by (simp add: cleanSparqlResponse_def ex ap rb)
  then show ?thesis by simp
qed

section \<open>Sorting by score\<close>

lemma set_insertSorted: "set (insertSorted x ys) = insert x (set ys)"
  by (induction ys) auto

lemma set_sortByScore: "set (sortByScore xs) = set xs"
  by (induction xs) (auto simp: set_insertSorted)

lemma length_insertSorted: "length (insertSorted x ys) = Suc (length ys)"
  by (induction ys) auto

lemma length_sortByScore: "length (sortByScore xs) = length xs"
  by (induction xs) (auto simp: length_insertSorted)

lemma compareScores_le: "compareScores x y \<le> 0 \<longleftrightarrow> \<not> jsLt (score x) (score y)"
  by (auto simp: compareScores_def jsLt_def)

lemma jsLt_not_both_equal: "jsLt a b \<Longrightarrow> \<not> (jsEq a sc \<and> jsEq b sc)"
  by (auto simp: jsLt_def jsEq_def)

lemma jsGe_trans: "jsGe a b \<Longrightarrow> jsGe b c \<Longrightarrow> jsGe a c"
  by (auto simp: jsGe_def jsLt_def)

lemma jsLt_jsGe: "jsLt a b \<Longrightarrow> jsGe b a"
  by (auto simp: jsGe_def jsLt_def)

lemma not_jsLt_jsGe: "a \<noteq> NaN \<Longrightarrow> b \<noteq> NaN \<Longrightarrow> \<not> jsLt a b \<Longrightarrow> jsGe a b"
  by (simp add: jsGe_def)

lemma filter_insertSorted:
  "filter (\<lambda>r. jsEq (score r) sc) (insertSorted x ys) =
     (if jsEq (score x) sc then x # filter (\<lambda>r. jsEq (score r) sc) ys
      else filter (\<lambda>r. jsEq (score r) sc) ys)"
proof (induction ys)
  case Nil
  then show ?case by simp
next
  case (Cons y ys)
  show ?case
  proof (cases "compareScores x y \<le> 0")
    case True
    then show ?thesis by simp
  next
    case False
    then have "jsLt (score x) (score y)" by (simp add: compareScores_le)
    then have "\<not> (jsEq (score x) sc \<and> jsEq (score y) sc)" by (rule jsLt_not_both_equal)
    with False Cons.IH show ?thesis by auto
  qed
qed

lemma sortByScore_stable:
  "filter (\<lambda>r. jsEq (score r) sc) (sortByScore xs) = filter (\<lambda>r. jsEq (score r) sc) xs"
  by (induction xs) (simp_all add: filter_insertSorted)

lemma sorted_insertSorted:
  assumes "sorted_wrt (\<lambda>a b. jsGe (score a) (score b)) ys"
    and "score x \<noteq> NaN" and "\<forall>y\<in>set ys. score y \<noteq> NaN"
  shows "sorted_wrt (\<lambda>a b. jsGe (score a) (score b)) (insertSorted x ys)"
  using assms
proof (induction ys)
  case Nil
  then show ?case by simp
next
  case (Cons y ys)
  show ?case
  proof (cases "compareScores x y \<le> 0")
    case True
    with Cons.prems have xy: "jsGe (score x) (score y)"
      by (simp add: compareScores_le not_jsLt_jsGe)
    have "jsGe (score x) (score z)" if "z \<in> set ys" for z
    proof -
      from Cons.prems(1) that have "jsGe (score y) (score z)" by simp
      with xy show ?thesis by (rule jsGe_trans)
    qed
    with True Cons.prems(1) xy show ?thesis by simp
  next
    case False
    then have yx: "jsGe (score y) (score x)"
      by (simp add: compareScores_le jsLt_jsGe)
    from Cons.prems have IH: "sorted_wrt (\<lambda>a b. jsGe (score a) (score b)) (insertSorted x ys)"
      by (intro Cons.IH) simp_all
    have "jsGe (score y) (score z)" if "z \<in> set (insertSorted x ys)" for z
      using that Cons.prems(1) yx by (auto simp: set_insertSorted)
    with False IH show ?thesis by simp
  qed
qed

lemma sorted_sortByScore:
  "\<forall>x\<in>set xs. score x \<noteq> NaN \<Longrightarrow> sorted_wrt (\<lambda>a b. jsGe (score a) (score b)) (sortByScore xs)"
  by (induction xs) (simp_all add: sorted_insertSorted set_sortByScore)

lemma sorted_wrt_take: "sorted_wrt P xs \<Longrightarrow> sorted_wrt P (take n xs)"
  by (metis append_take_drop_id sorted_wrt_append)

lemma slice0_take: "\<exists>n. slice0 k xs = take n xs"
  by (auto simp: slice0_def)

lemma length_slice0: "0 \<le> k \<Longrightarrow> int (length (slice0 k xs)) = min k (int (length xs))"
  by (auto simp: slice0_def)

lemma set_slice0: "set (slice0 k xs) \<subseteq> set xs"
  using slice0_take[of k xs] by (auto dest: in_set_takeD)

section \<open>Scored documents\<close>

lemma scoreDocuments_documents:
  "scoreDocuments ar qe docs = Inr rs \<Longrightarrow>
     map document rs = filter (\<lambda>doc. embedding doc \<noteq> None) docs"
  by (induction docs arbitrary: rs) (auto split: option.splits sum.splits)

lemma scoreDocuments_scores:
  "scoreDocuments ar qe docs = Inr rs \<Longrightarrow> r \<in> set rs \<Longrightarrow>
     document r \<in> set docs \<and>
     (\<exists>e. embedding (document r) = Some e \<and> cosineSimilarity ar qe e = Inr (score r))"
  by (induction docs arbitrary: rs) (auto split: option.splits sum.splits)

lemma scoreDocuments_mismatch:
  "doc \<in> set docs \<Longrightarrow> embedding doc = Some e \<Longrightarrow> length e \<noteq> length qe \<Longrightarrow>
     \<exists>err. scoreDocuments ar qe docs = Inl err"
  by (induction docs) (auto simp: cosineSimilarity_def split: option.splits sum.splits)

lemma cosineSimilarity_length:
  "cosineSimilarity ar a b = Inr sc \<Longrightarrow> length a = length b"
  by (simp add: cosineSimilarity_def split: if_splits)

section \<open>Vectors of zeros\<close>

lemma sumSquares_zeros:
  assumes "ieeeZeroLaws ar" and "list_all (\<lambda>x. x = Num 0) b"
  shows "sumSquares ar b = Num 0"
proof -
  from assms(1) have p: "fpow ar (Num 0) (Num 2) = Num 0" and a: "fadd ar (Num 0) (Num 0) = Num 0"
    by (simp_all add: ieeeZeroLaws_def)
  have "foldl (\<lambda>sum val. fadd ar sum (fpow ar val (Num 2))) (Num 0) b = Num 0"
    using assms(2) by (induction b) (simp_all add: p a)
  then show ?thesis by (simp add: sumSquares_def)
qed

lemma dotProduct_zeros_from:
  assumes laws: "ieeeZeroLaws ar"
    and z: "list_all (\<lambda>x. x = Num 0) b"
    and acc: "acc = Num 0 \<or> acc = NaN"
    and len: "j + length a \<le> length b"
  shows "foldl (\<lambda>sum (val, i). fadd ar sum (fmul ar val (b ! i))) acc (zip a [j..<j + length a])
      \<in> {Num 0, NaN}"
  using acc len
proof (induction a arbitrary: acc j)
  case Nil
  then show ?case by auto
next
  case (Cons x xs)
  have u: "[j..<Suc (j + length xs)] = j # [Suc j..<Suc (j + length xs)]"
    by (rule upt_conv_Cons) simp
  from Cons.prems(2) have "j < length b" by simp
  with z have bj: "b ! j = Num 0" by (simp add: list_all_length)
  from laws have "isZeroOrNaN (fmul ar x (Num 0))" by (simp add: ieeeZeroLaws_def)
  moreover from laws have "fadd ar (Num 0) (Num 0) = Num 0" "fadd ar (Num 0) NegZero = Num 0"
    "fadd ar (Num 0) NaN = NaN" "fadd ar NaN y = NaN" for y
    by (simp_all add: ieeeZeroLaws_def)
  ultimately have next_acc:
    "fadd ar acc (fmul ar x (b ! j)) = Num 0 \<or> fadd ar acc (fmul ar x (b ! j)) = NaN"
    using Cons.prems(1) bj by (auto simp: isZeroOrNaN_def)
  from Cons.prems(2) have "Suc j + length xs \<le> length b" by simp
  from Cons.IH[OF next_acc this] show ?case
    by (simp add: u del: upt_Suc)
qed

lemma dotProduct_zeros:
  assumes "ieeeZeroLaws ar" and "list_all (\<lambda>x. x = Num 0) b" and "length a = length b"
  shows "dotProduct ar a b = Num 0 \<or> dotProduct ar a b = NaN"
  using dotProduct_zeros_from[OF assms(1,2), of "Num 0" 0 a] assms(3)
  by (simp add: dotProduct_def)

lemma cosineSimilarity_zeros:
  assumes laws: "ieeeZeroLaws ar" and z: "list_all (\<lambda>x. x = Num 0) b"
    and c: "cosineSimilarity ar a b = Inr sc"
  shows "sc = NaN"
proof -
  from c have len: "length a = length b" by (rule cosineSimilarity_length)
  have m: "fsqrt ar (sumSquares ar b) = Num 0"
    using laws sumSquares_zeros[OF laws z] by (simp add: ieeeZeroLaws_def)
  from laws have d: "isZeroOrNaN (fmul ar (fsqrt ar (sumSquares ar a)) (Num 0))"
    by (simp add: ieeeZeroLaws_def)
  from laws d have q: "fdiv ar (Num 0) (fmul ar (fsqrt ar (sumSquares ar a)) (Num 0)) = NaN"
    "fdiv ar NaN (fmul ar (fsqrt ar (sumSquares ar a)) (Num 0)) = NaN"
    by (simp_all add: ieeeZeroLaws_def)
  from c len have "sc = fdiv ar (dotProduct ar a b) (fmul ar (fsqrt ar (sumSquares ar a)) (Num 0))"
    by (simp add: cosineSimilarity_def Let_def m)
  with dotProduct_zeros[OF laws z len] q show ?thesis by auto
qed

section \<open>What a search returns\<close>

lemma loadVectorStore_other [simp]:
  "providerCalls (snd (loadVectorStore w s)) = providerCalls s"
  "embeddingsCache (snd (loadVectorStore w s)) = embeddingsCache s"
  "embeddingsModel (snd (loadVectorStore w s)) = embeddingsModel s"
  by (simp_all add: loadVectorStore_def split: option.splits)

lemma searchTry_result:
  "fst (searchTry w s store qry k flt) =
     (if \<not> embeddingsModel s \<and> modelInit w \<noteq> None then Inl (the (modelInit w))
      else (case embedQuery w (length (providerCalls s)) qry of
              Inl err \<Rightarrow> Inl err
            | Inr qe \<Rightarrow> docsWithScores (arith w) qe (documentsToSearch store flt) k))"
  by (auto simp: searchTry_def getEmbeddingsModel_def callEmbedQuery_def
      split: option.splits sum.splits)

lemma searchKnowledgeBase_result:
  "fst (searchKnowledgeBase w s qry k flt) =
     (case fst (loadVectorStore w s) of
        None \<Rightarrow> Inr []
      | Some store \<Rightarrow>
          if documents store = [] then Inr []
          else (case fst (searchTry w (snd (loadVectorStore w s)) store qry k flt) of
                  Inl err \<Rightarrow> Inr []
                | Inr found \<Rightarrow> Inr found))"
  by (auto simp: searchKnowledgeBase_def split: prod.splits option.splits sum.splits)

lemma searchKnowledgeBase_found:
  assumes "fst (searchKnowledgeBase w s qry k flt) = Inr found" and "found \<noteq> []"
  shows "\<exists>store qe scored. fst (loadVectorStore w s) = Some store
     \<and> embedQuery w (length (providerCalls s)) qry = Inr qe
     \<and> scoreDocuments (arith w) qe (documentsToSearch store flt) = Inr scored
     \<and> found = slice0 k (sortByScore scored)"
  using assms
  by (auto simp: searchKnowledgeBase_result searchTry_result docsWithScores_def
      split: option.splits sum.splits if_splits)

lemma byType: "searchKnowledgeBaseByType w s qry ty k = searchKnowledgeBase w s qry k (typeFilter ty)"
  by (simp add: searchKnowledgeBaseByType_def)

lemma loadVectorStore_again:
  "fst (loadVectorStore w (snd (loadVectorStore w s))) = fst (loadVectorStore w s)"
  by (simp add: loadVectorStore_def split: option.splits)

lemma searchTry_vectorStore:
  "vectorStore (snd (searchTry w s store qry k flt)) = vectorStore s"
  by (simp add: searchTry_def getEmbeddingsModel_def callEmbedQuery_def
      split: option.splits sum.splits prod.splits)

lemma searchTry_cache:
  "embeddingsCache (snd (searchTry w s store qry k flt)) = embeddingsCache s"
  by (simp add: searchTry_def getEmbeddingsModel_def callEmbedQuery_def
      split: option.splits sum.splits prod.splits)

lemma searchTry_calls:
  "providerCalls (snd (searchTry w s store qry k flt)) =
     (if \<not> embeddingsModel s \<and> modelInit w \<noteq> None then providerCalls s
      else providerCalls s @ [qry])"
  by (simp add: searchTry_def getEmbeddingsModel_def callEmbedQuery_def
      split: option.splits sum.splits prod.splits)

lemma searchTry_model:
  "embeddingsModel (snd (searchTry w s store qry k flt)) =
     (embeddingsModel s \<or> modelInit w = None)"
  by (auto simp: searchTry_def getEmbeddingsModel_def callEmbedQuery_def
      split: option.splits sum.splits prod.splits)

lemma searchKnowledgeBase_state:
  "snd (searchKnowledgeBase w s qry k flt) =
     (case fst (loadVectorStore w s) of
        None \<Rightarrow> snd (loadVectorStore w s)
      | Some store \<Rightarrow>
          if documents store = [] then snd (loadVectorStore w s)
          else snd (searchTry w (snd (loadVectorStore w s)) store qry k flt))"
  by (auto simp: searchKnowledgeBase_def split: prod.splits option.splits sum.splits)

lemma loadVectorStore_store:
  "vectorStore (snd (loadVectorStore w s)) =
     (case vectorStore s of None \<Rightarrow> storeFile w | Some store \<Rightarrow> Some store)"
  by (simp add: loadVectorStore_def split: option.splits)

lemma loadVectorStore_fst:
  "fst (loadVectorStore w s) = (case vectorStore s of None \<Rightarrow> storeFile w | Some store \<Rightarrow> Some store)"
  by (simp add: loadVectorStore_def split: option.splits)

lemma searchKnowledgeBase_vectorStore:
  "vectorStore (snd (searchKnowledgeBase w s qry k flt)) =
     (case vectorStore s of None \<Rightarrow> storeFile w | Some store \<Rightarrow> Some store)"
  by (simp add: searchKnowledgeBase_state searchTry_vectorStore loadVectorStore_store
      split: option.splits)

lemma searchKnowledgeBase_load:
  "fst (loadVectorStore w (snd (searchKnowledgeBase w s qry k flt))) = fst (loadVectorStore w s)"
  by (simp add: loadVectorStore_fst searchKnowledgeBase_vectorStore split: option.splits)

lemma indexIsEmpty_kept:
  "indexIsEmpty w (snd (searchKnowledgeBase w s qry k flt)) = indexIsEmpty w s"
  by (simp add: indexIsEmpty_def searchKnowledgeBase_load)

lemma searchKnowledgeBase_empty:
  "indexIsEmpty w s \<Longrightarrow> fst (searchKnowledgeBase w s qry k flt) = Inr []"
  by (auto simp: searchKnowledgeBase_result indexIsEmpty_def split: option.splits)

lemma searchKnowledgeBase_fulfils:
  "\<exists>found. fst (searchKnowledgeBase w s qry k flt) = Inr found"
  by (simp add: searchKnowledgeBase_result split: option.split sum.split)

lemma searchKnowledgeBase_fails:
  "retrievalFails w s qry k flt \<Longrightarrow> fst (searchKnowledgeBase w s qry k flt) = Inr []"
  by (auto simp: retrievalFails_def searchFails_def indexIsEmpty_def searchKnowledgeBase_result
      isl_def split: option.splits prod.splits sum.splits)

lemma length_scoreDocuments:
  "scoreDocuments ar qe docs = Inr rs \<Longrightarrow>
     length rs = length (filter (\<lambda>doc. embedding doc \<noteq> None) docs)"
  using scoreDocuments_documents[of ar qe docs rs] by (metis length_map)

section \<open>Evaluation on the concrete inputs\<close>

lemmas search_defs = searchKnowledgeBase_def loadVectorStore_def searchTry_def
  getEmbeddingsModel_def callEmbedQuery_def docsWithScores_def documentsToSearch_def
  cosineSimilarity_def sumSquares_def dotProduct_def compareScores_def jsLt_def slice0_def
  matchesFilter_def truthy_def typeFilter_def

lemmas arith_defs = exactArith_def exactMul_def exactDiv_def exactSqrt_def isZero_def
  signedZero_def signedInf_def

lemmas input_defs = mkDoc_def mkStore_def initialState_def cachedState_def zeroDoc_def
  unitDoc_def zeroWorld_def unitZeroWorld_def failingWorld_def emptyWorld_def kbDocuments_def
  steadyWorld_def flakyWorld_def

lemma exactArith_laws: "ieeeZeroLaws exactArith"
  unfolding ieeeZeroLaws_def
  by (intro conjI allI impI) (auto simp: arith_defs isZeroOrNaN_def)

lemma zero_vocabulary:
  "fst (searchKnowledgeBase zeroWorld initialState ''q'' 5 (typeFilter ''vocabulary'')) =
     Inr [\<lparr>document = zeroDoc, score = NaN\<rparr>]"
  by (simp add: search_defs input_defs arith_defs)

lemma steady_examples:
  "fst (searchKnowledgeBase steadyWorld initialState ''q'' 3 (typeFilter ''example'')) =
     Inr [\<lparr>document = mkDoc ''e1'' ''example'' (Some [Num 1, Num 0]), score = Num 1\<rparr>,
          \<lparr>document = mkDoc ''e3'' ''example'' (Some [Num 1, Num 0]), score = Num 1\<rparr>,
          \<lparr>document = mkDoc ''e2'' ''example'' (Some [Num 0, Num 1]), score = Num 0\<rparr>]"
  by (simp add: search_defs input_defs arith_defs)

lemma flaky_vocabulary:
  "searchKnowledgeBaseByType flakyWorld initialState ''q'' ''vocabulary'' 2 =
     (Inr [], initialState\<lparr>embeddingsModel := True, vectorStore := Some (mkStore kbDocuments),
                          providerCalls := [''q'']\<rparr>)"
  by (simp add: searchKnowledgeBaseByType_def search_defs input_defs arith_defs)

lemma flaky_pattern:
  "searchKnowledgeBaseByType flakyWorld
     (initialState\<lparr>embeddingsModel := True, vectorStore := Some (mkStore kbDocuments),
                   providerCalls := [''q'']\<rparr>) ''q'' ''pattern'' 2 =
     (Inr [\<lparr>document = mkDoc ''p1'' ''pattern'' (Some [Num 0, Num 1]), score = Num 0\<rparr>],
      initialState\<lparr>embeddingsModel := True, vectorStore := Some (mkStore kbDocuments),
                   providerCalls := [''q'', ''q'']\<rparr>)"
  by (simp add: searchKnowledgeBaseByType_def search_defs input_defs arith_defs)

lemma flaky_example:
  "searchKnowledgeBaseByType flakyWorld
     (initialState\<lparr>embeddingsModel := True, vectorStore := Some (mkStore kbDocuments),
                   providerCalls := [''q'', ''q'']\<rparr>) ''q'' ''example'' 3 =
     (Inr [\<lparr>document = mkDoc ''e1'' ''example'' (Some [Num 1, Num 0]), score = Num 1\<rparr>,
           \<lparr>document = mkDoc ''e3'' ''example'' (Some [Num 1, Num 0]), score = Num 1\<rparr>,
           \<lparr>document = mkDoc ''e2'' ''example'' (Some [Num 0, Num 1]), score = Num 0\<rparr>],
      initialState\<lparr>embeddingsModel := True, vectorStore := Some (mkStore kbDocuments),
                   providerCalls := [''q'', ''q'', ''q'']\<rparr>)"
  by (simp add: searchKnowledgeBaseByType_def search_defs input_defs arith_defs)

section \<open>The range of the scores\<close>

text \<open>
  C3. The claim: every score the semantic retriever returns is a number in \<open>[-1, 1]\<close>,
  for all embeddings of matching length, zero-magnitude vectors included.
  \<open>cosineSimilarity\<close> divides by the product of the magnitudes without a check. For a
  document whose embedding is \<open>[0]\<close> and the query embedding \<open>[1]\<close> the dot product
  is 0, the magnitudes are 0 and 1, and the quotient \<open>0 / 0\<close> is NaN: the document is
  returned with the score NaN.
\<close>

theorem searchKnowledgeBase_score_NaN:
  "embedding zeroDoc = Some [Num 0]
   \<and> embedQuery zeroWorld 0 ''q'' = Inr [Num 1]
   \<and> fst (searchKnowledgeBase zeroWorld initialState ''q'' 5 (typeFilter ''vocabulary'')) =
       Inr [\<lparr>document = zeroDoc, score = NaN\<rparr>]"
  by (simp add: search_defs input_defs arith_defs)

text \<open>
  C3, amended. Every document the semantic retriever returns carries an embedding as long
  as the query embedding, and its score is what \<open>cosineSimilarity\<close> computes for the two
  in the arithmetic of the engine, unclamped; when the embedding of the document consists
  of zeros (\<open>+0\<close>), that score is NaN, by the laws of IEEE arithmetic on zeros. A document that
  passes the filter with an embedding of another length makes the search return the empty
  sequence. No range is promised.
\<close>

theorem searchKnowledgeBase_score_is_cosine:
  assumes "fst (searchKnowledgeBase w s qry k flt) = Inr found"
  shows "(\<forall>r\<in>set found. \<exists>qe e.
            embedQuery w (length (providerCalls s)) qry = Inr qe
          \<and> embedding (document r) = Some e
          \<and> length qe = length e
          \<and> cosineSimilarity (arith w) qe e = Inr (score r)
          \<and> (ieeeZeroLaws (arith w) \<and> list_all (\<lambda>x. x = Num 0) e \<longrightarrow> score r = NaN))
    \<and> (\<forall>store qe doc e.
            fst (loadVectorStore w s) = Some store
          \<and> embedQuery w (length (providerCalls s)) qry = Inr qe
          \<and> doc \<in> set (documentsToSearch store flt)
          \<and> embedding doc = Some e
          \<and> length e \<noteq> length qe
          \<longrightarrow> found = [])"
proof (intro conjI ballI allI impI)
  fix r
  assume r: "r \<in> set found"
  then have "found \<noteq> []" by auto
  from searchKnowledgeBase_found[OF assms this] obtain store qe scored where
    qe: "embedQuery w (length (providerCalls s)) qry = Inr qe"
    and sd: "scoreDocuments (arith w) qe (documentsToSearch store flt) = Inr scored"
    and f: "found = slice0 k (sortByScore scored)"
    by blast
  from r f have "r \<in> set scored"
    using set_slice0[of k "sortByScore scored"] by (auto simp: set_sortByScore)
  from scoreDocuments_scores[OF sd this] obtain e where
    e: "embedding (document r) = Some e" "cosineSimilarity (arith w) qe e = Inr (score r)"
    by blast
  from e(2) have len: "length qe = length e" by (rule cosineSimilarity_length)
  have "score r = NaN" if "ieeeZeroLaws (arith w) \<and> list_all (\<lambda>x. x = Num 0) e"
    using that e(2) cosineSimilarity_zeros by blast
  with qe e len show "\<exists>qe e.
            embedQuery w (length (providerCalls s)) qry = Inr qe
          \<and> embedding (document r) = Some e
          \<and> length qe = length e
          \<and> cosineSimilarity (arith w) qe e = Inr (score r)
          \<and> (ieeeZeroLaws (arith w) \<and> list_all (\<lambda>x. x = Num 0) e \<longrightarrow> score r = NaN)"
    by blast
next
  fix store qe doc e
  assume a: "fst (loadVectorStore w s) = Some store
          \<and> embedQuery w (length (providerCalls s)) qry = Inr qe
          \<and> doc \<in> set (documentsToSearch store flt)
          \<and> embedding doc = Some e
          \<and> length e \<noteq> length qe"
  then obtain err where "scoreDocuments (arith w) qe (documentsToSearch store flt) = Inl err"
    using scoreDocuments_mismatch by blast
  with a assms show "found = []"
    by (auto simp: searchKnowledgeBase_result searchTry_result docsWithScores_def
        split: if_splits)
qed

theorem searchKnowledgeBase_score_is_cosine_witness:
  "fst (searchKnowledgeBase zeroWorld initialState ''q'' 5 (typeFilter ''vocabulary'')) =
     Inr [\<lparr>document = zeroDoc, score = NaN\<rparr>]
   \<and> ieeeZeroLaws (arith zeroWorld)
   \<and> (\<exists>qe e. embedQuery zeroWorld (length (providerCalls initialState)) ''q'' = Inr qe
        \<and> embedding (document \<lparr>document = zeroDoc, score = NaN\<rparr>) = Some e
        \<and> length qe = length e
        \<and> list_all (\<lambda>x. x = Num 0) e
        \<and> cosineSimilarity (arith zeroWorld) qe e = Inr (score \<lparr>document = zeroDoc, score = NaN\<rparr>))"
proof -
  note r = zero_vocabulary
  have l: "ieeeZeroLaws (arith zeroWorld)"
    using exactArith_laws by (simp add: zeroWorld_def)
  from searchKnowledgeBase_score_is_cosine[OF r]
  have "\<exists>qe e. embedQuery zeroWorld (length (providerCalls initialState)) ''q'' = Inr qe
        \<and> embedding (document \<lparr>document = zeroDoc, score = NaN\<rparr>) = Some e
        \<and> length qe = length e
        \<and> cosineSimilarity (arith zeroWorld) qe e = Inr (score \<lparr>document = zeroDoc, score = NaN\<rparr>)
        \<and> (ieeeZeroLaws (arith zeroWorld) \<and> list_all (\<lambda>x. x = Num 0) e
            \<longrightarrow> score \<lparr>document = zeroDoc, score = NaN\<rparr> = NaN)"
    by simp
  then obtain qe e where
    c: "embedQuery zeroWorld (length (providerCalls initialState)) ''q'' = Inr qe"
       "embedding (document \<lparr>document = zeroDoc, score = NaN\<rparr>) = Some e"
       "length qe = length e"
       "cosineSimilarity (arith zeroWorld) qe e = Inr (score \<lparr>document = zeroDoc, score = NaN\<rparr>)"
    by blast
  from c(2) have "list_all (\<lambda>x. x = Num 0) e" by (auto simp: zeroDoc_def mkDoc_def)
  with r l c show ?thesis by blast
qed

section \<open>The order of the results\<close>

text \<open>
  C7. The claim: for every query, k and filter the sequence returned by the semantic
  retriever is non-increasing in score, ties keeping the order of the index.
  With an embedding of zeros in the index one score is NaN, and NaN compares neither
  above nor below a number: the two results below hold NaN and 1 in one order and in the
  other, and neither is non-increasing.
\<close>

theorem searchKnowledgeBase_NaN_unsorted:
  "fst (searchKnowledgeBase zeroWorld initialState ''q'' 2 None) =
     Inr [\<lparr>document = zeroDoc, score = NaN\<rparr>, \<lparr>document = unitDoc, score = Num 1\<rparr>]
   \<and> \<not> sorted_wrt (\<lambda>a b. jsGe (score a) (score b))
         [\<lparr>document = zeroDoc, score = NaN\<rparr>, \<lparr>document = unitDoc, score = Num 1\<rparr>]
   \<and> fst (searchKnowledgeBase unitZeroWorld initialState ''q'' 2 None) =
     Inr [\<lparr>document = unitDoc, score = Num 1\<rparr>, \<lparr>document = zeroDoc, score = NaN\<rparr>]
   \<and> \<not> sorted_wrt (\<lambda>a b. jsGe (score a) (score b))
         [\<lparr>document = unitDoc, score = Num 1\<rparr>, \<lparr>document = zeroDoc, score = NaN\<rparr>]"
  by (simp add: search_defs input_defs arith_defs jsGe_def)

text \<open>
  C7, amended. When none of the scores that \<open>cosineSimilarity\<close> computes for the
  documents passing the filter is NaN, the returned sequence is non-increasing in score,
  and for every score \<open>sc\<close> the returned documents whose score equals \<open>sc\<close> appear in
  the order they have in the index.
\<close>

theorem searchKnowledgeBase_sorted_stable:
  assumes st: "fst (loadVectorStore w s) = Some store"
    and res: "fst (searchKnowledgeBase w s qry k flt) = Inr found"
    and ns: "\<forall>qe. embedQuery w (length (providerCalls s)) qry = Inr qe \<longrightarrow>
               (\<forall>doc\<in>set (documentsToSearch store flt). \<forall>e. embedding doc = Some e \<longrightarrow>
                  cosineSimilarity (arith w) qe e \<noteq> Inr NaN)"
  shows "sorted_wrt (\<lambda>a b. jsGe (score a) (score b)) found
    \<and> subseq (map document (filter (\<lambda>r. jsEq (score r) sc) found)) (documents store)"
proof (cases "found = []")
  case True
  then show ?thesis by simp
next
  case False
  from searchKnowledgeBase_found[OF res False] st obtain qe scored where
    qe: "embedQuery w (length (providerCalls s)) qry = Inr qe"
    and sd: "scoreDocuments (arith w) qe (documentsToSearch store flt) = Inr scored"
    and f: "found = slice0 k (sortByScore scored)"
    by auto
  have nn: "score r \<noteq> NaN" if "r \<in> set scored" for r
  proof -
    from scoreDocuments_scores[OF sd that] obtain e where
      e: "document r \<in> set (documentsToSearch store flt)" "embedding (document r) = Some e"
         "cosineSimilarity (arith w) qe e = Inr (score r)"
      by blast
    from ns qe e(1,2) have "cosineSimilarity (arith w) qe e \<noteq> Inr NaN" by blast
    with e(3) show ?thesis by auto
  qed
  then have "sorted_wrt (\<lambda>a b. jsGe (score a) (score b)) (sortByScore scored)"
    by (intro sorted_sortByScore) simp
  moreover obtain n where n: "found = take n (sortByScore scored)"
    using f slice0_take by blast
  ultimately have 1: "sorted_wrt (\<lambda>a b. jsGe (score a) (score b)) found"
    by (simp add: sorted_wrt_take)
  have "prefix (filter (\<lambda>r. jsEq (score r) sc) found)
      (filter (\<lambda>r. jsEq (score r) sc) (sortByScore scored))"
    unfolding n by (intro filter_mono_prefix take_is_prefix)
  then have "subseq (filter (\<lambda>r. jsEq (score r) sc) found) (filter (\<lambda>r. jsEq (score r) sc) scored)"
    by (simp add: sortByScore_stable prefix_imp_subseq)
  then have "subseq (filter (\<lambda>r. jsEq (score r) sc) found) scored"
    by (rule subseq_order.order_trans) simp
  then have "subseq (map document (filter (\<lambda>r. jsEq (score r) sc) found)) (map document scored)"
    by (rule subseq_map)
  also have "map document scored =
      filter (\<lambda>doc. embedding doc \<noteq> None) (documentsToSearch store flt)"
    using sd by (rule scoreDocuments_documents)
  also have "subseq \<dots> (documentsToSearch store flt)" by simp
  also have "subseq (documentsToSearch store flt) (documents store)"
    by (simp add: documentsToSearch_def split: option.split)
  finally have 2:
    "subseq (map document (filter (\<lambda>r. jsEq (score r) sc) found)) (documents store)" .
  from 1 2 show ?thesis ..
qed

theorem searchKnowledgeBase_sorted_stable_witness:
  "fst (searchKnowledgeBase steadyWorld initialState ''q'' 3 (typeFilter ''example'')) =
     Inr [\<lparr>document = mkDoc ''e1'' ''example'' (Some [Num 1, Num 0]), score = Num 1\<rparr>,
          \<lparr>document = mkDoc ''e3'' ''example'' (Some [Num 1, Num 0]), score = Num 1\<rparr>,
          \<lparr>document = mkDoc ''e2'' ''example'' (Some [Num 0, Num 1]), score = Num 0\<rparr>]
   \<and> sorted_wrt (\<lambda>a b. jsGe (score a) (score b))
       [\<lparr>document = mkDoc ''e1'' ''example'' (Some [Num 1, Num 0]), score = Num 1\<rparr>,
        \<lparr>document = mkDoc ''e3'' ''example'' (Some [Num 1, Num 0]), score = Num 1\<rparr>,
        \<lparr>document = mkDoc ''e2'' ''example'' (Some [Num 0, Num 1]), score = Num 0\<rparr>]
   \<and> subseq (map document (filter (\<lambda>r. jsEq (score r) (Num 1))
       [\<lparr>document = mkDoc ''e1'' ''example'' (Some [Num 1, Num 0]), score = Num 1\<rparr>,
        \<lparr>document = mkDoc ''e3'' ''example'' (Some [Num 1, Num 0]), score = Num 1\<rparr>,
        \<lparr>document = mkDoc ''e2'' ''example'' (Some [Num 0, Num 1]), score = Num 0\<rparr>]))
       (documents (mkStore kbDocuments))"
proof -
  note r = steady_examples
  have st: "fst (loadVectorStore steadyWorld initialState) = Some (mkStore kbDocuments)"
    by (simp add: loadVectorStore_def steadyWorld_def initialState_def)
  have ns: "\<forall>qe. embedQuery steadyWorld (length (providerCalls initialState)) ''q'' = Inr qe \<longrightarrow>
      (\<forall>doc\<in>set (documentsToSearch (mkStore kbDocuments) (typeFilter ''example'')).
         \<forall>e. embedding doc = Some e \<longrightarrow> cosineSimilarity (arith steadyWorld) qe e \<noteq> Inr NaN)"
    by (auto simp: search_defs input_defs arith_defs)
  from searchKnowledgeBase_sorted_stable[OF st r ns, of "Num 1"] r show ?thesis by blast
qed

section \<open>The empty index\<close>

text \<open>
  C5. When the index is absent or has no document, the semantic retriever returns the
  empty sequence, without an error, for every query, k and filter, and \<open>totalDocs\<close> of
  the context aggregator is 0.
\<close>

theorem searchKnowledgeBase_empty_index:
  assumes "indexIsEmpty w s"
  shows "fst (searchKnowledgeBase w s qry k flt) = Inr []
    \<and> totalDocs (context_metadata (fst (getContextForQuery w s qry))) = 0"
proof -
  let ?a1 = "searchKnowledgeBase w s qry 2 (typeFilter ''vocabulary'')"
  let ?a2 = "searchKnowledgeBase w (snd ?a1) qry 2 (typeFilter ''pattern'')"
  let ?a3 = "searchKnowledgeBase w (snd ?a2) qry 3 (typeFilter ''example'')"
  from assms have e1: "indexIsEmpty w (snd ?a1)" by (simp only: indexIsEmpty_kept)
  then have e2: "indexIsEmpty w (snd ?a2)" by (simp only: indexIsEmpty_kept)
  have r: "fst ?a1 = Inr []" "fst ?a2 = Inr []" "fst ?a3 = Inr []"
    using assms e1 e2 by (simp_all only: searchKnowledgeBase_empty)
  have "totalDocs (context_metadata (fst (getContextForQuery w s qry))) = 0"
    using r by (simp add: getContextForQuery_def byType case_prod_beta emptyContext_def)
  with assms show ?thesis by (simp add: searchKnowledgeBase_empty)
qed

theorem searchKnowledgeBase_empty_index_witness:
  "indexIsEmpty emptyWorld initialState
   \<and> fst (searchKnowledgeBase emptyWorld initialState ''q'' 5 None) = Inr []
   \<and> totalDocs (context_metadata (fst (getContextForQuery emptyWorld initialState ''q''))) = 0"
proof -
  have e: "indexIsEmpty emptyWorld initialState"
    by (simp add: indexIsEmpty_def loadVectorStore_def emptyWorld_def initialState_def)
  from searchKnowledgeBase_empty_index[OF e, of "''q''" 5 None] e show ?thesis by blast
qed

section \<open>Failures stay with the call that fails\<close>

text \<open>
  C6. For every query none of the three retrieval calls of the context aggregator
  rejects, so no error of the retrieval layer reaches the aggregator or its caller; each of
  the three returned sequences holds the contents of what its own call returned,
  whatever happened to the other two; and a call that fails (empty index, or an error of
  the model, the provider or the scoring) contributes the empty sequence.
\<close>

theorem getContextForQuery_isolates_failures:
  "\<exists>v p e.
     fst (searchKnowledgeBaseByType w s qry ''vocabulary'' 2) = Inr v
   \<and> fst (searchKnowledgeBaseByType w
           (snd (searchKnowledgeBaseByType w s qry ''vocabulary'' 2)) qry ''pattern'' 2) = Inr p
   \<and> fst (searchKnowledgeBaseByType w
           (snd (searchKnowledgeBaseByType w
              (snd (searchKnowledgeBaseByType w s qry ''vocabulary'' 2)) qry ''pattern'' 2))
           qry ''example'' 3) = Inr e
   \<and> vocabularies (fst (getContextForQuery w s qry)) = map (\<lambda>item. content (document item)) v
   \<and> patterns (fst (getContextForQuery w s qry)) = map (\<lambda>item. content (document item)) p
   \<and> examples (fst (getContextForQuery w s qry)) = map (\<lambda>item. content (document item)) e
   \<and> (retrievalFails w s qry 2 (typeFilter ''vocabulary'') \<longrightarrow> v = [])
   \<and> (retrievalFails w (snd (searchKnowledgeBaseByType w s qry ''vocabulary'' 2)) qry 2
         (typeFilter ''pattern'') \<longrightarrow> p = [])
   \<and> (retrievalFails w
         (snd (searchKnowledgeBaseByType w
            (snd (searchKnowledgeBaseByType w s qry ''vocabulary'' 2)) qry ''pattern'' 2))
         qry 3 (typeFilter ''example'') \<longrightarrow> e = [])"
proof -
  let ?a1 = "searchKnowledgeBase w s qry 2 (typeFilter ''vocabulary'')"
  let ?a2 = "searchKnowledgeBase w (snd ?a1) qry 2 (typeFilter ''pattern'')"
  let ?a3 = "searchKnowledgeBase w (snd ?a2) qry 3 (typeFilter ''example'')"
  obtain v where v: "fst ?a1 = Inr v" using searchKnowledgeBase_fulfils by blast
  obtain p where p: "fst ?a2 = Inr p" using searchKnowledgeBase_fulfils by blast
  obtain e where e: "fst ?a3 = Inr e" using searchKnowledgeBase_fulfils by blast
  have c: "fst (getContextForQuery w s qry) =
      \<lparr>vocabularies = map (\<lambda>item. content (document item)) v,
       patterns = map (\<lambda>item. content (document item)) p,
       examples = map (\<lambda>item. content (document item)) e,
       context_metadata = \<lparr>totalDocs = length (v @ p @ e), types = typeCount (v @ p @ e)\<rparr>\<rparr>"
    using v p e by (simp add: getContextForQuery_def byType Let_def case_prod_beta)
  have fv: "retrievalFails w s qry 2 (typeFilter ''vocabulary'') \<longrightarrow> v = []"
    using searchKnowledgeBase_fails[of w s qry 2 "typeFilter ''vocabulary''"] v by auto
  have fp: "retrievalFails w (snd ?a1) qry 2 (typeFilter ''pattern'') \<longrightarrow> p = []"
    using searchKnowledgeBase_fails[of w "snd ?a1" qry 2 "typeFilter ''pattern''"] p by auto
  have fe: "retrievalFails w (snd ?a2) qry 3 (typeFilter ''example'') \<longrightarrow> e = []"
    using searchKnowledgeBase_fails[of w "snd ?a2" qry 3 "typeFilter ''example''"] e by auto
  show ?thesis
    unfolding byType using v p e c fv fp fe by simp
qed

theorem getContextForQuery_isolates_failures_witness:
  "retrievalFails flakyWorld initialState ''q'' 2 (typeFilter ''vocabulary'')
   \<and> vocabularies (fst (getContextForQuery flakyWorld initialState ''q'')) = []
   \<and> patterns (fst (getContextForQuery flakyWorld initialState ''q'')) = [''p1'']
   \<and> examples (fst (getContextForQuery flakyWorld initialState ''q'')) = [''e1'', ''e3'', ''e2'']"
proof -
  have f: "retrievalFails flakyWorld initialState ''q'' 2 (typeFilter ''vocabulary'')"
    by (simp add: retrievalFails_def searchFails_def indexIsEmpty_def search_defs input_defs
        arith_defs)
  from getContextForQuery_isolates_failures[of flakyWorld initialState "''q''"] f
  have 1: "vocabularies (fst (getContextForQuery flakyWorld initialState ''q'')) = []"
    by (elim exE conjE) simp
  have 2: "patterns (fst (getContextForQuery flakyWorld initialState ''q'')) = [''p1'']"
    by (simp add: getContextForQuery_def flaky_vocabulary flaky_pattern flaky_example mkDoc_def)
  have 3: "examples (fst (getContextForQuery flakyWorld initialState ''q'')) =
      [''e1'', ''e3'', ''e2'']"
    by (simp add: getContextForQuery_def flaky_vocabulary flaky_pattern flaky_example mkDoc_def)
  from f 1 2 3 show ?thesis by blast
qed

section \<open>The number of results\<close>

text \<open>
  C8. The claim: for \<open>k \<ge> 1\<close> the semantic retriever returns at most \<open>k\<close>
  documents, and fewer than \<open>k\<close> only when fewer than \<open>k\<close> documents carry an
  embedding and satisfy the filter.
  The search catches every error of its \<open>try\<close> block and returns the empty sequence:
  with a provider that fails, one qualifying document and \<open>k = 1\<close> it returns nothing.
\<close>

theorem searchKnowledgeBase_short_on_failure:
  "fst (searchKnowledgeBase failingWorld initialState ''q'' 1 None) = Inr []
   \<and> length (qualifyingDocuments failingWorld initialState None) = 1"
  by (simp add: qualifyingDocuments_def search_defs input_defs arith_defs)

text \<open>
  C8, amended. For \<open>k \<ge> 1\<close> the semantic retriever returns at most \<open>k\<close> documents;
  it returns the empty sequence when its \<open>try\<close> block fails, and otherwise as many
  documents as the smaller of \<open>k\<close> and the number of qualifying documents.
\<close>

theorem searchKnowledgeBase_length:
  assumes "1 \<le> k"
  shows "\<exists>found. fst (searchKnowledgeBase w s qry k flt) = Inr found
     \<and> int (length found) \<le> k
     \<and> (if searchFails w s qry k flt then found = []
        else int (length found) = min k (int (length (qualifyingDocuments w s flt))))"
proof (cases "fst (loadVectorStore w s)")
  case None
  with assms show ?thesis
    by (simp add: searchKnowledgeBase_result searchFails_def qualifyingDocuments_def
        split: prod.splits)
next
  case (Some store)
  show ?thesis
  proof (cases "documents store = []")
    case True
    with Some assms show ?thesis
      by (auto simp: searchKnowledgeBase_result searchFails_def qualifyingDocuments_def
          documentsToSearch_def split: prod.splits option.splits)
  next
    case False
    show ?thesis
    proof (cases "fst (searchTry w (snd (loadVectorStore w s)) store qry k flt)")
      case (Inl err)
      with Some False assms show ?thesis
        by (auto simp: searchKnowledgeBase_result searchFails_def split: prod.splits)
    next
      case (Inr found)
      then obtain qe scored where
        sd: "scoreDocuments (arith w) qe (documentsToSearch store flt) = Inr scored"
        and f: "found = slice0 k (sortByScore scored)"
        by (auto simp: searchTry_result docsWithScores_def split: if_splits sum.splits)
      from assms have "int (length found) = min k (int (length scored))"
        unfolding f by (simp add: length_slice0 length_sortByScore)
      moreover have "length scored = length (qualifyingDocuments w s flt)"
        using length_scoreDocuments[OF sd] Some by (simp add: qualifyingDocuments_def)
      moreover have "\<not> searchFails w s qry k flt"
        using Some Inr by (auto simp: searchFails_def split: prod.splits)
      moreover have "fst (searchKnowledgeBase w s qry k flt) = Inr found"
        using Some False Inr by (simp add: searchKnowledgeBase_result)
      ultimately show ?thesis by simp
    qed
  qed
qed

theorem searchKnowledgeBase_length_witness:
  "(1::int) \<le> 2
   \<and> (\<exists>found. fst (searchKnowledgeBase steadyWorld initialState ''q'' 2 None) = Inr found
        \<and> int (length found) \<le> 2
        \<and> (if searchFails steadyWorld initialState ''q'' 2 None then found = []
           else int (length found) =
                  min 2 (int (length (qualifyingDocuments steadyWorld initialState None)))))
   \<and> searchFails steadyWorld initialState ''q'' 2 None = False
   \<and> length (qualifyingDocuments steadyWorld initialState None) = 5"
proof -
  have k: "(1::int) \<le> 2" by simp
  have nf: "searchFails steadyWorld initialState ''q'' 2 None = False"
    by (simp add: searchFails_def search_defs input_defs arith_defs)
  have q: "length (qualifyingDocuments steadyWorld initialState None) = 5"
    by (simp add: qualifyingDocuments_def search_defs input_defs arith_defs)
  from searchKnowledgeBase_length[OF k, of steadyWorld initialState "''q''" None] k nf q show ?thesis by blast
qed

section \<open>The effects of a search\<close>

text \<open>
  C9. The claim: the only side effect of a search is a lookup or write on the embedding
  cache, the provider is not invoked for a query whose embedding the cache holds, and no
  other process-wide state changes.
  \<open>searchKnowledgeBase\<close> never touches \<open>embeddingsCache\<close>. With the embedding of
  \<open>''q''\<close> in the cache, a search for \<open>''q''\<close> still sends \<open>''q''\<close> to the provider,
  and it sets the two other module variables, \<open>vectorStore\<close> and \<open>embeddingsModel\<close>.
\<close>

theorem searchKnowledgeBase_ignores_cache:
  "embeddingsCache cachedState ''q'' = Some [Num 1]
   \<and> providerCalls cachedState = []
   \<and> providerCalls (snd (searchKnowledgeBase zeroWorld cachedState ''q'' 5 None)) = [''q'']
   \<and> vectorStore cachedState = None
   \<and> vectorStore (snd (searchKnowledgeBase zeroWorld cachedState ''q'' 5 None)) =
       Some (mkStore [zeroDoc, unitDoc])
   \<and> embeddingsModel cachedState = False
   \<and> embeddingsModel (snd (searchKnowledgeBase zeroWorld cachedState ''q'' 5 None)) = True"
  by (simp add: search_defs input_defs arith_defs)
text \<open>
  C9, amended. A search leaves the embedding cache as it is. It loads the index into
  \<open>vectorStore\<close> when that is still unset, and when the index is not empty it sets
  \<open>embeddingsModel\<close> (if the model can be constructed) and sends the query to the
  provider once, whether or not the cache holds the embedding of the query.
\<close>

theorem searchKnowledgeBase_effects:
  "embeddingsCache (snd (searchKnowledgeBase w s qry k flt)) = embeddingsCache s
   \<and> vectorStore (snd (searchKnowledgeBase w s qry k flt)) =
       (case vectorStore s of None \<Rightarrow> storeFile w | Some store \<Rightarrow> Some store)
   \<and> embeddingsModel (snd (searchKnowledgeBase w s qry k flt)) =
       (if indexIsEmpty w s then embeddingsModel s else (embeddingsModel s \<or> modelInit w = None))
   \<and> providerCalls (snd (searchKnowledgeBase w s qry k flt)) =
       (if indexIsEmpty w s then providerCalls s
        else if embeddingsModel s \<or> modelInit w = None then providerCalls s @ [qry]
        else providerCalls s)"
proof -
  have 1: "embeddingsCache (snd (searchKnowledgeBase w s qry k flt)) = embeddingsCache s"
    by (simp add: searchKnowledgeBase_state searchTry_cache split: option.splits)
  have 3: "embeddingsModel (snd (searchKnowledgeBase w s qry k flt)) =
       (if indexIsEmpty w s then embeddingsModel s else (embeddingsModel s \<or> modelInit w = None))"
    by (simp add: searchKnowledgeBase_state searchTry_model indexIsEmpty_def split: option.splits)
  have 4: "providerCalls (snd (searchKnowledgeBase w s qry k flt)) =
       (if indexIsEmpty w s then providerCalls s
        else if embeddingsModel s \<or> modelInit w = None then providerCalls s @ [qry]
        else providerCalls s)"
    by (auto simp: searchKnowledgeBase_state searchTry_calls indexIsEmpty_def split: option.splits)
  from 1 searchKnowledgeBase_vectorStore 3 4 show ?thesis by (intro conjI)
qed

end
